theory Spec2Isabelle
  imports Complex_Main "HOL-Library.Monad_Syntax"
begin

section \<open>Split the G: the home route\<close>

text \<open>
  A shallow embedding of \<^verbatim>\<open>src/app/routes/home.tsx\<close>: the server-side \<^verbatim>\<open>action\<close>
  (lines 27-170) and the client-side detection loop of the \<^verbatim>\<open>Home\<close> component
  (lines 172-358).
\<close>

subsection \<open>JavaScript values read from the API response\<close>

text \<open>
  \<^verbatim>\<open>response.json()\<close> gives a value built from JSON; \<^verbatim>\<open>undefined\<close> is what reading an
  absent property gives. The action only ever tests a number for being zero. An object
  is its list of own properties.
\<close>

datatype jsval =
    JUndefined
  | JNull
  | JBool bool
  | JNum rat
  | JStr string
  | JArr "jsval list"
  | JObj "(string \<times> jsval) list"

fun nullish :: "jsval \<Rightarrow> bool" where
  "nullish JUndefined = True"
| "nullish JNull = True"
| "nullish _ = False"

text \<open>JavaScript truthiness, as used by \<^verbatim>\<open>!\<close> and \<^verbatim>\<open>||\<close>.\<close>

fun truthy :: "jsval \<Rightarrow> bool" where
  "truthy JUndefined = False"
| "truthy JNull = False"
| "truthy (JBool b) = b"
| "truthy (JNum r) = (r \<noteq> 0)"
| "truthy (JStr s) = (s \<noteq> [])"
| "truthy (JArr _) = True"
| "truthy (JObj _) = True"

text \<open>
  \<^verbatim>\<open>v.k\<close> and \<^verbatim>\<open>v["k"]\<close> for the property names the action uses (\<^verbatim>\<open>outputs\<close>,
  \<^verbatim>\<open>pint results\<close>, \<^verbatim>\<open>predictions\<close>, \<^verbatim>\<open>class\<close>, \<^verbatim>\<open>split image\<close>,
  \<^verbatim>\<open>pint image\<close>, \<^verbatim>\<open>value\<close>), none of which a string, number, boolean or array
  has by itself. \<open>None\<close> is the \<^verbatim>\<open>TypeError\<close> thrown on \<^verbatim>\<open>null\<close> and
  \<^verbatim>\<open>undefined\<close>.
\<close>

fun member :: "jsval \<Rightarrow> string \<Rightarrow> jsval option" where
  "member JUndefined k = None"
| "member JNull k = None"
| "member (JObj kvs) k = (case map_of kvs k of None \<Rightarrow> Some JUndefined | Some v \<Rightarrow> Some v)"
| "member _ k = Some JUndefined"

text \<open>\<^verbatim>\<open>v[0]\<close>: the first element of an array, the first character of a string, the
  property \<^verbatim>\<open>"0"\<close> of an object.\<close>

fun item0 :: "jsval \<Rightarrow> jsval option" where
  "item0 JUndefined = None"
| "item0 JNull = None"
| "item0 (JArr xs) = (case xs of [] \<Rightarrow> Some JUndefined | x # _ \<Rightarrow> Some x)"
| "item0 (JStr s) = (case s of [] \<Rightarrow> Some JUndefined | c # _ \<Rightarrow> Some (JStr [c]))"
| "item0 (JObj kvs) = (case map_of kvs ''0'' of None \<Rightarrow> Some JUndefined | Some v \<Rightarrow> Some v)"
| "item0 _ = Some JUndefined"

text \<open>Optional chaining \<^verbatim>\<open>v?.k\<close> and \<^verbatim>\<open>v?.[0]\<close>.\<close>

definition opt_member :: "jsval \<Rightarrow> string \<Rightarrow> jsval option" where
  "opt_member v k = (if nullish v then Some JUndefined else member v k)"

definition opt_item0 :: "jsval \<Rightarrow> jsval option" where
  "opt_item0 v = (if nullish v then Some JUndefined else item0 v)"

text \<open>
  Lines 78-79:
  \<^verbatim>\<open>result.outputs?.[0]?.["pint results"]?.predictions?.predictions || []\<close>.
\<close>

definition pintPredictions :: "jsval \<Rightarrow> jsval option" where
  "pintPredictions result =
     do {
       outputs \<leftarrow> member result ''outputs'';
       output0 \<leftarrow> opt_item0 outputs;
       pint \<leftarrow> opt_member output0 ''pint results'';
       preds \<leftarrow> opt_member pint ''predictions'';
       inner \<leftarrow> opt_member preds ''predictions'';
       Some (if truthy inner then inner else JArr [])
     }"

text \<open>
  Line 80: \<^verbatim>\<open>pintPredictions.some((pred) => pred.class === "G")\<close>. \<^verbatim>\<open>some\<close> stops at
  the first element for which the callback is true; the callback throws on a
  \<^verbatim>\<open>null\<close> element; a value that is not an array has no \<^verbatim>\<open>some\<close> method.
\<close>

fun some_class_G :: "jsval list \<Rightarrow> bool option" where
  "some_class_G [] = Some False"
| "some_class_G (pred # rest) =
     (case member pred ''class'' of
        None \<Rightarrow> None
      | Some c \<Rightarrow> if c = JStr ''G'' then Some True else some_class_G rest)"

definition hasG :: "jsval \<Rightarrow> bool option" where
  "hasG v = (case v of JArr preds \<Rightarrow> some_class_G preds | _ \<Rightarrow> None)"

text \<open>Line 93: \<^verbatim>\<open>result.outputs?.[0]\<close>.\<close>

definition first_output_opt :: "jsval \<Rightarrow> jsval option" where
  "first_output_opt result = do { outputs \<leftarrow> member result ''outputs''; opt_item0 outputs }"

text \<open>Lines 98, 99 and 117: \<^verbatim>\<open>result.outputs[0]\<close>.\<close>

definition first_output :: "jsval \<Rightarrow> jsval option" where
  "first_output result = do { outputs \<leftarrow> member result ''outputs''; item0 outputs }"

text \<open>Lines 98 and 104: \<^verbatim>\<open>result.outputs[0]["split image"]?.[0]?.value\<close>.\<close>

definition splitImage :: "jsval \<Rightarrow> jsval option" where
  "splitImage result =
     do {
       output0 \<leftarrow> first_output result;
       splitImageData \<leftarrow> member output0 ''split image'';
       first \<leftarrow> opt_item0 splitImageData;
       opt_member first ''value''
     }"

text \<open>Lines 99 and 105: \<^verbatim>\<open>result.outputs[0]["pint image"]?.value\<close>.\<close>

definition pintImage :: "jsval \<Rightarrow> jsval option" where
  "pintImage result =
     do {
       output0 \<leftarrow> first_output result;
       pintImageData \<leftarrow> member output0 ''pint image'';
       opt_member pintImageData ''value''
     }"

subsection \<open>The world outside the action\<close>

text \<open>
  A thrown value is an \<^verbatim>\<open>Error\<close> instance with its message, or something else (the
  \<^verbatim>\<open>catch\<close> block of lines 157-169 tells the two apart with \<^verbatim>\<open>instanceof\<close>).
\<close>

datatype thrown = ErrorObject string | OtherValue

text \<open>The \<^verbatim>\<open>Response\<close> of \<^verbatim>\<open>fetch\<close>, with what reading its body gives.\<close>

record response =
  resp_ok :: bool
  resp_status :: nat
  resp_text :: "thrown + string"
  resp_json :: "thrown + jsval"

record location =
  loc_city :: "string option"
  loc_region :: "string option"
  loc_country :: "string option"
  loc_country_code :: "string option"

text \<open>The object given to \<^verbatim>\<open>insert\<close> (lines 129-140).\<close>

record score_row =
  split_score :: rat
  split_image_url :: string
  pint_image_url :: string
  username :: string
  created_at :: string
  session_id :: string
  city :: "string option"
  region :: "string option"
  country :: "string option"
  country_code :: "string option"

text \<open>The inserted row as the database returns it; the action reads its \<^verbatim>\<open>id\<close>.\<close>

record inserted =
  row_id :: string

text \<open>The \<^verbatim>\<open>{ data, error }\<close> pair of the database client (line 127).\<close>

record insert_reply =
  reply_data :: "inserted option"
  reply_error :: "thrown option"

text \<open>
  Everything one call of the action obtains from outside itself. The functions
  \<^verbatim>\<open>generateBeerUsername\<close>, \<^verbatim>\<open>calculateScore\<close>, \<^verbatim>\<open>uploadImage\<close> and
  \<^verbatim>\<open>getLocationData\<close> are imported from \<^verbatim>\<open>~/utils\<close> (lines 6-12) and are parameters
  here, as are the inference API, the database, the clock, the random UUID and the text
  of the engine's \<^verbatim>\<open>TypeError\<close>.
\<close>

record world =
  generateBeerUsername :: string
  randomUUID :: string
  fetch :: "string \<Rightarrow> thrown + response"
  type_error_message :: string
  calculateScore :: "jsval \<Rightarrow> thrown + rat"
  uploadImage :: "jsval \<Rightarrow> string \<Rightarrow> thrown + string"
  getLocationData :: "string \<Rightarrow> thrown + location"
  now_iso :: string
  insert_score :: "score_row \<Rightarrow> insert_reply"

text \<open>
  The request: the form field \<^verbatim>\<open>image\<close> (line 29, \<^verbatim>\<open>base64Image\<close>) and the client address that
  lines 39-47 select from the headers.
\<close>

record request =
  base64Image :: string
  clientIP :: string

text \<open>What the action does to the outside, in order.\<close>

datatype effect =
    CallApi string string
  | ReadText
  | ReadJson
  | Upload jsval string
  | Locate string
  | InsertRow string score_row

subsection \<open>What the action returns to the page\<close>

text \<open>
  The two object literals the action returns (lines 84-89 and 163-168), or the redirect
  of line 154 with its headers.
\<close>

record action_data =
  success :: bool
  error :: string
  message :: string
  status :: nat

datatype action_result =
    Data action_data
  | Redirect string "(string \<times> string) list"

subsection \<open>The action\<close>

text \<open>Decimal digits of a number, for the template string of line 71.\<close>

definition digit_char :: "nat \<Rightarrow> char" where
  "digit_char d = ''0123456789'' ! d"

fun show_nat :: "nat \<Rightarrow> string" where
  "show_nat n =
     (if n < 10 then [digit_char n]
      else show_nat (n div 10) @ [digit_char (n mod 10)])"

declare show_nat.simps [simp del]

definition api_url :: string where
  "api_url = ''https://detect.roboflow.com/infer/workflows/hunter-diminick/split-g-scoring''"

text \<open>Lines 117-156: score, upload, locate, insert, redirect.\<close>

definition store ::
  "world \<Rightarrow> request \<Rightarrow> jsval \<Rightarrow> jsval \<Rightarrow> jsval
     \<Rightarrow> effect list \<times> (thrown + action_result)" where
  "store w req output0 splitImg pintImg =
     (case calculateScore w output0 of
        Inl e \<Rightarrow> ([], Inl e)
      | Inr splitScore \<Rightarrow>
     (let t1 = [Upload splitImg ''split-images''] in
      case uploadImage w splitImg ''split-images'' of
        Inl e \<Rightarrow> (t1, Inl e)
      | Inr splitImageUrl \<Rightarrow>
     (let t2 = t1 @ [Upload pintImg ''pint-images''] in
      case uploadImage w pintImg ''pint-images'' of
        Inl e \<Rightarrow> (t2, Inl e)
      | Inr pintImageUrl \<Rightarrow>
     (let t3 = t2 @ [Locate (clientIP req)] in
      case getLocationData w (clientIP req) of
        Inl e \<Rightarrow> (t3, Inl e)
      | Inr locationData \<Rightarrow>
     (let row = \<lparr>split_score = splitScore,
                 split_image_url = splitImageUrl,
                 pint_image_url = pintImageUrl,
                 username = generateBeerUsername w,
                 created_at = now_iso w,
                 session_id = randomUUID w,
                 city = loc_city locationData,
                 region = loc_region locationData,
                 country = loc_country locationData,
                 country_code = loc_country_code locationData\<rparr>;
          t4 = t3 @ [InsertRow ''scores'' row];
          reply = insert_score w row
      in case reply_error reply of
           Some dbError \<Rightarrow> (t4, Inl dbError)
         | None \<Rightarrow>
             (case reply_data reply of
                None \<Rightarrow> (t4, Inl (ErrorObject (type_error_message w)))
              | Some score \<Rightarrow>
                  (t4, Inr (Redirect (''/score/'' @ row_id score)
                     [(''Set-Cookie'',
                       ''split-g-session='' @ randomUUID w
                         @ ''; Path=/; Max-Age=31536000; SameSite=Lax'')]))))))))"

text \<open>Lines 74-115: what the action makes of the parsed body.\<close>

definition no_g_detected :: action_data where
  "no_g_detected =
     \<lparr>success = False, error = ''No G detected'',
      message = ''No G pattern detected'', status = 400\<rparr>"

definition interpret_result ::
  "world \<Rightarrow> request \<Rightarrow> jsval \<Rightarrow> effect list \<times> (thrown + action_result)" where
  "interpret_result w req result =
     (let type_error = ([], Inl (ErrorObject (type_error_message w))) in
      case pintPredictions result of
        None \<Rightarrow> type_error
      | Some preds \<Rightarrow>
     (case hasG preds of
        None \<Rightarrow> type_error
      | Some False \<Rightarrow> ([], Inr (Data no_g_detected))
      | Some True \<Rightarrow>
     (case first_output_opt result of
        None \<Rightarrow> type_error
      | Some checked \<Rightarrow>
          if \<not> truthy checked
          then ([], Inl (ErrorObject ''No outputs received from API''))
          else
     (case splitImage result of
        None \<Rightarrow> type_error
      | Some splitImg \<Rightarrow>
     (case pintImage result of
        None \<Rightarrow> type_error
      | Some pintImg \<Rightarrow>
          if \<not> truthy splitImg \<or> \<not> truthy pintImg
          then ([], Inl (ErrorObject ''Missing required image data from API response''))
          else
     (case first_output result of
        None \<Rightarrow> type_error
      | Some output0 \<Rightarrow> store w req output0 splitImg pintImg))))))"

text \<open>Lines 52-156: the body of the \<^verbatim>\<open>try\<close> block.\<close>

definition try_block :: "world \<Rightarrow> request \<Rightarrow> effect list \<times> (thrown + action_result)" where
  "try_block w req =
     (let t1 = [CallApi api_url (base64Image req)] in
      case fetch w (base64Image req) of
        Inl e \<Rightarrow> (t1, Inl e)
      | Inr response \<Rightarrow>
          if \<not> resp_ok response then
            (case resp_text response of
               Inl e \<Rightarrow> (t1 @ [ReadText], Inl e)
             | Inr errorText \<Rightarrow>
                 (t1 @ [ReadText],
                  Inl (ErrorObject (''API request failed ('' @ show_nat (resp_status response)
                         @ ''): '' @ errorText))))
          else
            (case resp_json response of
               Inl e \<Rightarrow> (t1 @ [ReadJson], Inl e)
             | Inr result \<Rightarrow>
                 (let (t2, r) = interpret_result w req result in (t1 @ [ReadJson] @ t2, r))))"

text \<open>Lines 157-169: the \<^verbatim>\<open>catch\<close> block.\<close>

definition failed :: "thrown \<Rightarrow> action_data" where
  "failed e =
     \<lparr>success = False,
      error = (case e of ErrorObject m \<Rightarrow> m | OtherValue \<Rightarrow> ''Unknown error occurred''),
      message = ''Failed to process image'',
      status = 500\<rparr>"

text \<open>The action: what it returns, and what it did to the outside.\<close>

definition action :: "world \<Rightarrow> request \<Rightarrow> action_result \<times> effect list" where
  "action w req =
     (case try_block w req of
        (t, Inr r) \<Rightarrow> (r, t)
      | (t, Inl e) \<Rightarrow> (Data (failed e), t))"

subsection \<open>The detection loop of the Home component\<close>

text \<open>
  A prediction of the in-browser model; the loop reads only its \<^verbatim>\<open>class\<close> field.
\<close>

record prediction =
  class_name :: string

text \<open>
  One firing of \<^verbatim>\<open>detectFrame\<close> sees what \<^verbatim>\<open>inferEngine.infer\<close> gives for
  the current video frame (a list of predictions, or an exception, which the
  \<^verbatim>\<open>try/catch\<close> of lines 264-332 swallows), and the base64 JPEG that the canvas would
  produce for that frame (lines 294-298, data-URL prefix already stripped).
\<close>

datatype infer_result = Predictions "prediction list" | Throws

record frame =
  inferred :: infer_result
  jpeg :: string

text \<open>
  The \<^verbatim>\<open>useState\<close> cells of the component (lines 173-248) that the loop reads or
  writes, the list of images handed to \<^verbatim>\<open>submit\<close> so far (oldest first), and the
  firings of \<^verbatim>\<open>detectFrame\<close> that are waiting for their inference (oldest first). Each
  waiting firing is its closure: the value that \<^verbatim>\<open>consecutiveDetections\<close> had at the
  render that installed the interval which fired it.
\<close>

record home_state =
  inferEngine :: bool
  modelWorkerId :: "string option"
  modelLoading :: bool
  isCameraActive :: bool
  isVideoReady :: bool
  consecutiveDetections :: nat
  feedbackMessage :: string
  isProcessing :: bool
  isSubmitting :: bool
  isUploadProcessing :: bool
  showNoGModal :: bool
  submitted :: "string list"
  in_flight :: "nat list"

definition initial_state :: home_state where
  "initial_state =
     \<lparr>inferEngine = False, modelWorkerId = None, modelLoading = False,
      isCameraActive = False, isVideoReady = False, consecutiveDetections = 0,
      feedbackMessage = ''Show your pint glass'', isProcessing = False,
      isSubmitting = False, isUploadProcessing = False, showNoGModal = False,
      submitted = [], in_flight = []\<rparr>"

text \<open>
  The \<^verbatim>\<open>video\<close> and \<^verbatim>\<open>canvas\<close> elements, hence \<^verbatim>\<open>videoRef.current\<close> and
  \<^verbatim>\<open>canvasRef.current\<close>, exist exactly when the JSX renders them: not under the
  \<^verbatim>\<open>isSubmitting\<close> spinner (line 401) and only while the camera is active (line 487).
\<close>

definition refs_mounted :: "home_state \<Rightarrow> bool" where
  "refs_mounted s = (isCameraActive s \<and> \<not> isSubmitting s)"

text \<open>\<^verbatim>\<open>Array.prototype.some\<close>.\<close>

fun some :: "('a \<Rightarrow> bool) \<Rightarrow> 'a list \<Rightarrow> bool" where
  "some p [] = False"
| "some p (x # xs) = (if p x then True else some p xs)"

text \<open>
  \<^verbatim>\<open>detectFrame\<close> (lines 261-333) runs in two parts, since it awaits the inference.

  The first part is line 262, at the moment the interval fires. The interval belongs to
  the latest render: \<^verbatim>\<open>consecutiveDetections\<close> is in the dependency list of the effect
  (line 342), so every change of the cell clears the interval and installs a new one
  whose closure holds the new value. The firing therefore carries the value the cell
  has when it fires, and keeps it while it waits.
\<close>

definition fire :: "home_state \<Rightarrow> home_state" where
  "fire s =
     (if modelWorkerId s = None \<or> \<not> refs_mounted s then s
      else s\<lparr>in_flight := in_flight s @ [consecutiveDetections s]\<rparr>)"

text \<open>
  The second part is lines 267-329, when the inference has answered. Here \<open>c\<close> is the
  closure's \<^verbatim>\<open>consecutiveDetections\<close>, read by the tests of lines 275 and 317, while
  the functional update \<^verbatim>\<open>prev => prev + 1\<close> of line 273 works on the cell as it is
  now, and line 280 reads the refs as they are now.
\<close>

definition detectFrame :: "nat \<Rightarrow> frame \<Rightarrow> home_state \<Rightarrow> home_state" where
  "detectFrame c fr s =
     (case inferred fr of
        Throws \<Rightarrow> s
      | Predictions predictions \<Rightarrow>
          (let hasGlass = some (\<lambda>pred. class_name pred = ''glass'') predictions;
               hasG = some (\<lambda>pred. class_name pred = ''G'') predictions
           in if hasGlass \<and> hasG then
                (let s1 = s\<lparr>consecutiveDetections := consecutiveDetections s + 1\<rparr>
                 in if c \<ge> 4 then
                      (let s2 = s1\<lparr>feedbackMessage := ''Perfect! Processing your pour...'',
                                   isProcessing := True, isSubmitting := True\<rparr>
                       in if refs_mounted s
                          then s2\<lparr>isCameraActive := False,
                                  submitted := submitted s @ [jpeg fr]\<rparr>
                          else s2)
                    else if c \<ge> 1
                      then s1\<lparr>feedbackMessage := ''Hold still...''\<rparr>
                      else s1\<lparr>feedbackMessage := ''Keep the glass centered...''\<rparr>)
              else
                s\<lparr>consecutiveDetections := 0,
                  feedbackMessage :=
                    (if \<not> hasGlass then ''Show your pint glass''
                     else ''Make sure the G pattern is visible'')\<rparr>))"

text \<open>
  The inference of the waiting firing number \<open>i\<close> (counted from 0, oldest first)
  answers with \<open>fr\<close>: the firing leaves the waiting list and its second part runs. It
  runs whether or not the interval that fired it still exists: clearing an interval
  does not stop a call that is already waiting.
\<close>

definition answer :: "nat \<Rightarrow> frame \<Rightarrow> home_state \<Rightarrow> home_state" where
  "answer i fr s =
     (if i < length (in_flight s)
      then detectFrame (in_flight s ! i) fr
             (s\<lparr>in_flight := take i (in_flight s) @ drop (Suc i) (in_flight s)\<rparr>)
      else s)"

text \<open>
  A firing that is answered before anything else happens: it joins the waiting list
  and is the one taken from it.
\<close>

definition tick :: "frame \<Rightarrow> home_state \<Rightarrow> home_state" where
  "tick fr s = answer (length (in_flight s)) fr (fire s)"

text \<open>
  The guard of the effect that owns the interval (lines 252-259); \<^verbatim>\<open>isClient\<close> is true
  in the browser, where effects run.
\<close>

definition loop_installed :: "home_state \<Rightarrow> bool" where
  "loop_installed s =
     (inferEngine s \<and> modelWorkerId s \<noteq> None \<and> isCameraActive s \<and> isVideoReady s)"

text \<open>
  What can happen to the mounted component:
  the inference engine is imported (lines 187-190, then 199-202),
  the model worker starts (line 209),
  the user presses "Start Analysis" (line 511; the button is rendered only when the page
  is neither submitting nor showing the camera),
  the video reports its metadata (line 494),
  the camera fails (lines 236 and 497),
  the interval fires (line 335) and \<^verbatim>\<open>detectFrame\<close> starts to wait,
  a waiting \<^verbatim>\<open>detectFrame\<close> gets its answer,
  the interval fires and that firing is answered before anything else happens,
  the action's returned object arrives as \<^verbatim>\<open>actionData\<close> (lines 347-358; a redirect
  leaves the page instead),
  the user closes the "No G" dialog (line 636).
\<close>

datatype event =
    EngineLoaded
  | WorkerStarted string
  | StartAnalysis
  | LoadedMetadata
  | CameraError
  | Fire
  | Answer nat frame
  | Tick frame
  | ActionReturned action_data
  | CloseNoGModal

fun step :: "event \<Rightarrow> home_state \<Rightarrow> home_state" where
  "step EngineLoaded s = s\<lparr>inferEngine := True, modelLoading := True\<rparr>"
| "step (WorkerStarted wid) s =
     (if modelLoading s then s\<lparr>modelWorkerId := Some wid\<rparr> else s)"
| "step StartAnalysis s =
     (if \<not> isSubmitting s \<and> \<not> isCameraActive s then s\<lparr>isCameraActive := True\<rparr> else s)"
| "step LoadedMetadata s =
     (if refs_mounted s then s\<lparr>isVideoReady := True\<rparr> else s)"
| "step CameraError s = s\<lparr>isCameraActive := False\<rparr>"
| "step Fire s = (if loop_installed s then fire s else s)"
| "step (Answer i fr) s = answer i fr s"
| "step (Tick fr) s = (if loop_installed s then tick fr s else s)"
| "step (ActionReturned d) s =
     (let s1 = s\<lparr>isUploadProcessing := False, isSubmitting := False\<rparr>
      in if error d = ''No G detected'' then s1\<lparr>showNoGModal := True\<rparr> else s1)"
| "step CloseNoGModal s = s\<lparr>showNoGModal := False\<rparr>"

fun run :: "event list \<Rightarrow> home_state \<Rightarrow> home_state" where
  "run [] s = s"
| "run (e # es) s = run es (step e s)"


subsection \<open>Notions used by the statements below\<close>

text \<open>
  A polled frame \<^emph>\<open>detects\<close> when the test of line 272 holds for it: its predictions
  contain a \<^verbatim>\<open>glass\<close> and a \<^verbatim>\<open>G\<close> (lines 269-270). It is \<^emph>\<open>answered\<close> when the
  inference returned rather than threw.
\<close>

definition detects :: "frame \<Rightarrow> bool" where
  "detects fr =
     (case inferred fr of
        Throws \<Rightarrow> False
      | Predictions predictions \<Rightarrow>
          some (\<lambda>pred. class_name pred = ''glass'') predictions
          \<and> some (\<lambda>pred. class_name pred = ''G'') predictions)"

definition answered :: "frame \<Rightarrow> bool" where
  "answered fr = (inferred fr \<noteq> Throws)"

text \<open>The loop is installed and the page shows the camera rather than the spinner.\<close>

definition polling :: "home_state \<Rightarrow> bool" where
  "polling s = (loop_installed s \<and> \<not> isSubmitting s)"

text \<open>
  A firing that does not overlap any other: the interval fires, and the only waiting
  call is answered before the interval fires again.
\<close>

definition firing :: "frame \<Rightarrow> event list" where
  "firing fr = [Fire, Answer 0 fr]"

text \<open>
  With the counter at \<open>c\<close>, the detection results \<open>bs\<close> still to come complete a run of
  five: they begin with the \<open>5 - c\<close> missing ones, or contain five in a row later.
\<close>

definition streak_from :: "nat \<Rightarrow> bool list \<Rightarrow> bool" where
  "streak_from c bs =
     ((\<exists>after. bs = replicate (5 - c) True @ after)
      \<or> (\<exists>before after. bs = before @ replicate 5 True @ after))"

text \<open>
  The specification's words, "a majority-vote counter": more than half of the polled
  frames contain the required detections.
\<close>

definition majority_detect :: "frame list \<Rightarrow> bool" where
  "majority_detect fs = (length fs < 2 * length (filter detects fs))"

text \<open>Frames for concrete runs: one showing glass and G, one showing the glass only.\<close>

definition frame_both :: frame where
  "frame_both =
     \<lparr>inferred = Predictions [\<lparr>class_name = ''glass''\<rparr>, \<lparr>class_name = ''G''\<rparr>],
      jpeg = ''Qk9USA==''\<rparr>"

definition frame_glass :: frame where
  "frame_glass =
     \<lparr>inferred = Predictions [\<lparr>class_name = ''glass''\<rparr>], jpeg = ''R0xBU1M=''\<rparr>"

text \<open>The page from its first render to a running camera with the model loaded.\<close>

definition start_up :: "event list" where
  "start_up = [EngineLoaded, WorkerStarted ''worker-1'', StartAnalysis, LoadedMetadata]"

text \<open>How often a trace of the action calls the inference API.\<close>

fun is_api_call :: "effect \<Rightarrow> bool" where
  "is_api_call (CallApi url body) = True"
| "is_api_call _ = False"

definition api_calls :: "effect list \<Rightarrow> nat" where
  "api_calls t = length (filter is_api_call t)"

text \<open>The request to the API failed: \<^verbatim>\<open>fetch\<close> rejected, or \<^verbatim>\<open>response.ok\<close> is false
  (line 69).\<close>

definition api_request_failed :: "world \<Rightarrow> request \<Rightarrow> bool" where
  "api_request_failed w req =
     (case fetch w (base64Image req) of Inl e \<Rightarrow> True | Inr response \<Rightarrow> \<not> resp_ok response)"

text \<open>
  A concrete world and request. The body below is a response of the shape the action
  expects: one output with a glass and a G among the pint predictions, and both images.
\<close>

definition sample_body :: jsval where
  "sample_body =
     JObj [(''outputs'',
       JArr [JObj
         [(''pint results'',
             JObj [(''predictions'',
               JObj [(''predictions'',
                 JArr [JObj [(''class'', JStr ''glass'')], JObj [(''class'', JStr ''G'')]])])]),
          (''split image'', JArr [JObj [(''value'', JStr ''c3BsaXQ='')]]),
          (''pint image'', JObj [(''value'', JStr ''cGludA=='')])]])]"

definition ok_response :: "jsval \<Rightarrow> response" where
  "ok_response body =
     \<lparr>resp_ok = True, resp_status = 200, resp_text = Inr [], resp_json = Inr body\<rparr>"

definition sample_world :: "(thrown + response) \<Rightarrow> world" where
  "sample_world reply =
     \<lparr>generateBeerUsername = ''StoutFan'',
      randomUUID = ''0000'',
      fetch = (\<lambda>img. reply),
      type_error_message = ''TypeError'',
      calculateScore = (\<lambda>output0. Inr 4),
      uploadImage = (\<lambda>img bucket. Inr (bucket @ ''/1.jpg'')),
      getLocationData =
        (\<lambda>ip. Inr \<lparr>loc_city = None, loc_region = None,
                     loc_country = None, loc_country_code = None\<rparr>),
      now_iso = ''2025-03-01T00:00:00.000Z'',
      insert_score = (\<lambda>row. \<lparr>reply_data = Some \<lparr>row_id = ''7''\<rparr>, reply_error = None\<rparr>)\<rparr>"



definition busy_response :: response where
  "busy_response =
     \<lparr>resp_ok = False, resp_status = 503, resp_text = Inr ''busy'', resp_json = Inl OtherValue\<rparr>"

definition sample_request :: request where
  "sample_request = \<lparr>base64Image = ''aW1n'', clientIP = ''203.0.113.9''\<rparr>"


section \<open>The detection loop\<close>

subsection \<open>Runs of five among detection results\<close>

lemma streak_from_Nil: "c \<le> 4 \<Longrightarrow> \<not> streak_from c []"
  by (auto simp: streak_from_def)

lemma streak_from_last_hit: "streak_from 4 (True # bs)"
  by (auto simp: streak_from_def)

lemma five_in_a_row_Cons:
  assumes "\<exists>before after. bs = before @ replicate 5 True @ after"
  shows "\<exists>before after. b # bs = before @ replicate 5 True @ after"
proof -
  from assms obtain before after where "bs = before @ replicate 5 True @ after" by blast
  then have "b # bs = (b # before) @ replicate 5 True @ after" by simp
  then show ?thesis by blast
qed

lemma streak_from_miss:
  assumes "c \<le> 4"
  shows "streak_from c (False # bs) = streak_from 0 bs"
proof -
  from assms obtain k where k: "5 - c = Suc k" by (cases "5 - c") auto
  have no_prefix: "\<not> (\<exists>after. False # bs = replicate (5 - c) True @ after)"
    by (simp add: k)
  have later: "(\<exists>before after. False # bs = before @ replicate 5 True @ after)
               = (\<exists>before after. bs = before @ replicate 5 True @ after)"
  proof
    assume "\<exists>before after. False # bs = before @ replicate 5 True @ after"
    then obtain before after where e: "False # bs = before @ replicate 5 True @ after" by blast
    show "\<exists>before after. bs = before @ replicate 5 True @ after"
    proof (cases before)
      case Nil
      with e show ?thesis by (simp add: numeral_eq_Suc)
    next
      case (Cons x rest)
      with e have "bs = rest @ replicate 5 True @ after" by simp
      then show ?thesis by blast
    qed
  next
    assume "\<exists>before after. bs = before @ replicate 5 True @ after"
    then show "\<exists>before after. False # bs = before @ replicate 5 True @ after"
      by (rule five_in_a_row_Cons)
  qed
  have at_once: "(\<exists>after. bs = replicate 5 True @ after)
                 \<Longrightarrow> (\<exists>before after. bs = before @ replicate 5 True @ after)"
    by (metis append_Nil)
  show ?thesis unfolding streak_from_def using no_prefix later at_once by auto
qed

lemma streak_from_hit:
  assumes "c < 4"
  shows "streak_from c (True # bs) = streak_from (Suc c) bs"
proof -
  from assms have k: "5 - c = Suc (5 - Suc c)" by simp
  have prefix: "(\<exists>after. True # bs = replicate (5 - c) True @ after)
                = (\<exists>after. bs = replicate (5 - Suc c) True @ after)"
    by (simp add: k)
  have later: "streak_from (Suc c) bs"
    if "\<exists>before after. True # bs = before @ replicate 5 True @ after"
  proof -
    from that obtain before after where e: "True # bs = before @ replicate 5 True @ after"
      by blast
    show ?thesis
    proof (cases before)
      case Nil
      with e have "bs = replicate 4 True @ after" by (simp add: numeral_eq_Suc)
      moreover have "replicate 4 True = replicate (5 - Suc c) True @ replicate c True"
        using assms by (simp add: replicate_add [symmetric])
      ultimately have "bs = replicate (5 - Suc c) True @ (replicate c True @ after)" by simp
      then show ?thesis unfolding streak_from_def by blast
    next
      case (Cons x rest)
      with e have "bs = rest @ replicate 5 True @ after" by simp
      then show ?thesis unfolding streak_from_def by blast
    qed
  qed
  show ?thesis
    using prefix later five_in_a_row_Cons [of bs True] unfolding streak_from_def by blast
qed

lemma streak_from_zero:
  "streak_from 0 bs = (\<exists>before after. bs = before @ replicate 5 True @ after)"
  unfolding streak_from_def by (auto intro: exI [of _ "[]"])

subsection \<open>One firing of the interval\<close>

lemma polling_facts:
  "polling s \<Longrightarrow> loop_installed s \<and> modelWorkerId s \<noteq> None \<and> refs_mounted s"
  by (auto simp: polling_def loop_installed_def refs_mounted_def)

lemma detects_answered: "detects fr \<Longrightarrow> answered fr"
  by (auto simp: detects_def answered_def)

text \<open>
  A firing that is answered at once sees its own closure equal to the cell: it is the
  second part of \<^verbatim>\<open>detectFrame\<close> run on the state in which it fired.
\<close>

lemma tick_as_detectFrame:
  "tick fr s =
     (if modelWorkerId s \<noteq> None \<and> refs_mounted s
      then detectFrame (consecutiveDetections s) fr s else s)"
  by (simp add: tick_def fire_def answer_def)

lemma detectFrame_in_flight: "in_flight (detectFrame c fr s) = in_flight s"
  by (cases "inferred fr") (simp_all add: detectFrame_def Let_def)

lemma tick_in_flight: "in_flight (step (Tick fr) s) = in_flight s"
  by (simp add: tick_as_detectFrame detectFrame_in_flight)

lemma firing_is_tick:
  assumes "in_flight s = []"
  shows "run (firing fr) s = step (Tick fr) s"
  using assms by (simp add: firing_def tick_def fire_def answer_def)

lemma firings_are_ticks:
  "in_flight s = [] \<Longrightarrow> run (concat (map firing fs)) s = run (map Tick fs) s"
proof (induction fs arbitrary: s)
  case Nil
  then show ?case by simp
next
  case (Cons fr fs)
  have split: "run (firing fr @ concat (map firing fs)) s
               = run (concat (map firing fs)) (run (firing fr) s)"
    by (simp add: firing_def)
  from Cons.prems tick_in_flight [of fr s] have "in_flight (step (Tick fr) s) = []"
    by simp
  from Cons.IH [OF this] split firing_is_tick [OF Cons.prems] show ?case by simp
qed

lemma tick_unanswered: "\<not> answered fr \<Longrightarrow> step (Tick fr) s = s"
  by (simp add: tick_as_detectFrame answered_def detectFrame_def)

lemma ticks_without_loop: "\<not> loop_installed s \<Longrightarrow> run (map Tick fs) s = s"
  by (induction fs) (simp_all add: tick_as_detectFrame)

lemma tick_miss:
  assumes "polling s" "answered fr" "\<not> detects fr"
  shows "polling (step (Tick fr) s) \<and> consecutiveDetections (step (Tick fr) s) = 0
         \<and> submitted (step (Tick fr) s) = submitted s"
  using assms polling_facts [of s]
  by (cases "inferred fr")
     (auto simp: tick_as_detectFrame polling_def loop_installed_def refs_mounted_def
        detectFrame_def detects_def answered_def Let_def)

lemma tick_hit_early:
  assumes "polling s" "detects fr" "consecutiveDetections s < 4"
  shows "polling (step (Tick fr) s)
         \<and> consecutiveDetections (step (Tick fr) s) = Suc (consecutiveDetections s)
         \<and> submitted (step (Tick fr) s) = submitted s"
  using assms polling_facts [of s]
  by (cases "inferred fr")
     (auto simp: tick_as_detectFrame polling_def loop_installed_def refs_mounted_def
        detectFrame_def detects_def Let_def)

lemma tick_hit_capture:
  assumes "polling s" "detects fr" "consecutiveDetections s \<ge> 4"
  shows "\<not> loop_installed (step (Tick fr) s)
         \<and> submitted (step (Tick fr) s) = submitted s @ [jpeg fr]"
  using assms polling_facts [of s]
  by (cases "inferred fr")
     (auto simp: tick_as_detectFrame polling_def loop_installed_def refs_mounted_def
        detectFrame_def detects_def Let_def)

subsection \<open>A camera session\<close>

lemma capture_iff_streak:
  "polling s \<Longrightarrow> consecutiveDetections s \<le> 4 \<Longrightarrow>
     (submitted (run (map Tick fs) s) \<noteq> submitted s)
     = streak_from (consecutiveDetections s) (map detects (filter answered fs))"
proof (induction fs arbitrary: s)
  case Nil
  then show ?case by (simp add: streak_from_Nil)
next
  case (Cons fr fs)
  let ?s' = "step (Tick fr) s"
  show ?case
  proof (cases "answered fr")
    case False
    then have "?s' = s" by (rule tick_unanswered)
    with Cons False show ?thesis by simp
  next
    case True
    show ?thesis
    proof (cases "detects fr")
      case miss: False
      from tick_miss [OF Cons.prems(1) True miss]
      have p: "polling ?s'" and c: "consecutiveDetections ?s' = 0"
        and u: "submitted ?s' = submitted s"
        by simp_all
      from Cons.IH [OF p] c u
      have "(submitted (run (map Tick fs) ?s') \<noteq> submitted s)
            = streak_from 0 (map detects (filter answered fs))"
        by simp
      with True miss Cons.prems(2) show ?thesis by (simp add: streak_from_miss)
    next
      case hit: True
      show ?thesis
      proof (cases "consecutiveDetections s < 4")
        case early: True
        from tick_hit_early [OF Cons.prems(1) hit early]
        have p: "polling ?s'"
          and c: "consecutiveDetections ?s' = Suc (consecutiveDetections s)"
          and u: "submitted ?s' = submitted s"
          by simp_all
        from early c have "consecutiveDetections ?s' \<le> 4" by simp
        from Cons.IH [OF p this] c u
        have "(submitted (run (map Tick fs) ?s') \<noteq> submitted s)
              = streak_from (Suc (consecutiveDetections s)) (map detects (filter answered fs))"
          by simp
        with True hit early show ?thesis by (simp add: streak_from_hit)
      next
        case False
        with Cons.prems(2) have four: "consecutiveDetections s = 4" by simp
        then have "consecutiveDetections s \<ge> 4" by simp
        from tick_hit_capture [OF Cons.prems(1) hit this]
        have off: "\<not> loop_installed ?s'" and u: "submitted ?s' = submitted s @ [jpeg fr]"
          by simp_all
        from ticks_without_loop [OF off] u
        have "submitted (run (map Tick fs) ?s') = submitted s @ [jpeg fr]" by simp
        with True hit four show ?thesis by (simp add: streak_from_last_hit)
      qed
    qed
  qed
qed

lemmas loop_defs =
  initial_state_def start_up_def frame_both_def frame_glass_def
  detectFrame_def fire_def answer_def tick_def refs_mounted_def loop_installed_def

text \<open>
  C2, as amended. The loop does not vote: it counts a run. Take a camera session that
  starts with the counter at 0, nothing being submitted and no firing waiting, and in
  which no two firings of the interval overlap: each firing is answered before the
  interval fires again. Then the frames polled make the loop submit a capture exactly
  when, among the frames whose inference returned, five in a row each contain both a
  \<^verbatim>\<open>glass\<close> and a \<^verbatim>\<open>G\<close> prediction.
\<close>

theorem capture_iff_five_in_a_row:
  assumes "loop_installed s" and "\<not> isSubmitting s" and "consecutiveDetections s = 0"
    and "in_flight s = []"
  shows "(submitted (run (concat (map firing fs)) s) \<noteq> submitted s)
         = (\<exists>before after.
              map detects (filter answered fs) = before @ replicate 5 True @ after)"
proof -
  from assms have "polling s" and "consecutiveDetections s \<le> 4"
    by (simp_all add: polling_def)
  from capture_iff_streak [OF this] assms(3) firings_are_ticks [OF assms(4)]
  show ?thesis
    by (simp add: streak_from_zero)
qed

theorem capture_iff_five_in_a_row_witness:
  "loop_installed (run start_up initial_state)
   \<and> \<not> isSubmitting (run start_up initial_state)
   \<and> consecutiveDetections (run start_up initial_state) = 0
   \<and> in_flight (run start_up initial_state) = []
   \<and> submitted (run (concat (map firing (replicate 5 frame_both)))
        (run start_up initial_state)) = [jpeg frame_both]
   \<and> (\<exists>before after.
         map detects (filter answered (replicate 5 frame_both))
           = before @ replicate 5 True @ after)"
proof -
  let ?s = "run start_up initial_state"
  have a: "loop_installed ?s" and b: "\<not> isSubmitting ?s" and c: "consecutiveDetections ?s = 0"
    and e: "in_flight ?s = []"
    by (simp_all add: loop_defs)
  have d: "submitted (run (concat (map firing (replicate 5 frame_both))) ?s)
           = [jpeg frame_both]"
    by (simp add: loop_defs firing_def numeral_eq_Suc)
  then have "submitted (run (concat (map firing (replicate 5 frame_both))) ?s) \<noteq> submitted ?s"
    by (simp add: loop_defs)
  with capture_iff_five_in_a_row [OF a b c e, of "replicate 5 frame_both"]
  have "\<exists>before after.
          map detects (filter answered (replicate 5 frame_both))
            = before @ replicate 5 True @ after"
    by simp
  with a b c d e show ?thesis by blast
qed

text \<open>
  Why the firings must not overlap. When the inference is slower than the interval, two
  firings wait under one closure. Below, the second and third firing both carry the
  closure 1 and the fourth and fifth both carry 3, so five detecting answers in a row
  bring the cell to 5 while no closure has reached 4, and nothing is submitted; the
  sixth firing carries 5 and captures, leaving the cell at 6.
\<close>

lemma overlapping_firings_delay_capture:
  "submitted (run (start_up @
      [Fire, Answer 0 frame_both,
       Fire, Fire, Answer 0 frame_both, Answer 0 frame_both,
       Fire, Fire, Answer 0 frame_both, Answer 0 frame_both]) initial_state) = []
   \<and> consecutiveDetections (run (start_up @
      [Fire, Answer 0 frame_both,
       Fire, Fire, Answer 0 frame_both, Answer 0 frame_both,
       Fire, Fire, Answer 0 frame_both, Answer 0 frame_both]) initial_state) = 5
   \<and> submitted (run (start_up @
      [Fire, Answer 0 frame_both,
       Fire, Fire, Answer 0 frame_both, Answer 0 frame_both,
       Fire, Fire, Answer 0 frame_both, Answer 0 frame_both,
       Fire, Answer 0 frame_both]) initial_state) = [jpeg frame_both]
   \<and> consecutiveDetections (run (start_up @
      [Fire, Answer 0 frame_both,
       Fire, Fire, Answer 0 frame_both, Answer 0 frame_both,
       Fire, Fire, Answer 0 frame_both, Answer 0 frame_both,
       Fire, Answer 0 frame_both]) initial_state) = 6"
  by (simp add: loop_defs)

text \<open>
  A waiting firing also outlives a miss. After four detecting frames two firings wait
  with the closure 4; the first is answered by a frame without a G, which puts the cell
  back to 0, and the second, answered by a detecting frame, still captures.
\<close>

lemma stale_closure_captures_after_miss:
  "submitted (run (start_up @ map Tick (replicate 4 frame_both) @
      [Fire, Fire, Answer 0 frame_glass, Answer 0 frame_both]) initial_state)
   = [jpeg frame_both]"
  by (simp add: loop_defs numeral_eq_Suc)

text \<open>
  C2 as the specification words it fails both ways. Eight of nine polled frames
  contain the detections, a majority at every moment, and nothing is captured, because
  the fifth frame shows no G; five of eleven frames contain them, a minority, and the
  loop captures, because they are the last five.
\<close>

theorem majority_vote_counterexample:
  "majority_detect (replicate 4 frame_both @ [frame_glass] @ replicate 4 frame_both)
   \<and> submitted (run (start_up @ map Tick
        (replicate 4 frame_both @ [frame_glass] @ replicate 4 frame_both)) initial_state) = []
   \<and> \<not> majority_detect (replicate 6 frame_glass @ replicate 5 frame_both)
   \<and> submitted (run (start_up @ map Tick
        (replicate 6 frame_glass @ replicate 5 frame_both)) initial_state) = [jpeg frame_both]"
  by (simp add: majority_detect_def detects_def loop_defs numeral_eq_Suc)

text \<open>
  C4. A second camera session on the same page captures after a single frame. The run:
  the page starts up, five frames in a row show glass and G and the fifth is captured;
  the action answers "No G detected"; the user closes the dialog and presses
  "Start Analysis" again; one frame shows glass and G. That one frame is submitted at
  once, since nothing has put the counter back to 0 after the first capture.
\<close>

theorem second_session_captures_after_one_frame:
  "submitted (run (start_up @ map Tick (replicate 5 frame_both)) initial_state)
     = [jpeg frame_both]
   \<and> submitted (run (start_up @ map Tick (replicate 5 frame_both)
        @ [ActionReturned no_g_detected, CloseNoGModal, StartAnalysis, Tick frame_both])
        initial_state)
     = [jpeg frame_both, jpeg frame_both]"
  by (simp add: loop_defs no_g_detected_def numeral_eq_Suc)

text \<open>
  C8. On the same run the counter stands at 5 after the first capture and at 6 after
  the second.
\<close>

theorem counter_exceeds_five:
  "consecutiveDetections (run (start_up @ map Tick (replicate 5 frame_both)) initial_state) = 5
   \<and> consecutiveDetections (run (start_up @ map Tick (replicate 5 frame_both)
        @ [ActionReturned no_g_detected, CloseNoGModal, StartAnalysis, Tick frame_both])
        initial_state) = 6"
  by (simp add: loop_defs no_g_detected_def numeral_eq_Suc)

section \<open>The action\<close>

lemmas sample_defs =
  sample_world_def sample_request_def sample_body_def ok_response_def api_url_def

lemmas action_defs =
  action_def try_block_def interpret_result_def store_def failed_def no_g_detected_def
  pintPredictions_def hasG_def first_output_opt_def first_output_def splitImage_def
  pintImage_def opt_member_def opt_item0_def

lemma sample_run:
  "action (sample_world (Inr (ok_response sample_body))) sample_request =
     (Redirect ''/score/7''
        [(''Set-Cookie'', ''split-g-session=0000; Path=/; Max-Age=31536000; SameSite=Lax'')],
      [CallApi api_url ''aW1n'', ReadJson,
       Upload (JStr ''c3BsaXQ='') ''split-images'',
       Upload (JStr ''cGludA=='') ''pint-images'',
       Locate ''203.0.113.9'',
       InsertRow ''scores''
         \<lparr>split_score = 4, split_image_url = ''split-images/1.jpg'',
          pint_image_url = ''pint-images/1.jpg'', username = ''StoutFan'',
          created_at = ''2025-03-01T00:00:00.000Z'', session_id = ''0000'',
          city = None, region = None, country = None, country_code = None\<rparr>])"
  by (simp add: action_defs sample_defs)

subsection \<open>Where the uploaded images sit in the body\<close>

lemma first_output_path:
  assumes "first_output result = Some output0"
  shows "\<exists>outputs. member result ''outputs'' = Some outputs \<and> item0 outputs = Some output0"
  using assms by (auto simp: first_output_def split: bind_splits)

lemma truthy_not_nullish: "truthy v \<Longrightarrow> \<not> nullish v"
  by (cases v) simp_all

lemma opt_member_truthy:
  assumes "opt_member v k = Some x" and "truthy x"
  shows "member v k = Some x"
  using assms by (auto simp: opt_member_def split: if_splits)

lemma opt_item0_truthy:
  assumes "opt_item0 v = Some x" and "truthy x"
  shows "item0 v = Some x"
  using assms by (auto simp: opt_item0_def split: if_splits)

lemma opt_member_source:
  assumes "opt_member v k = Some x" and "truthy x"
  shows "truthy v"
  using assms by (cases v) (auto simp: opt_member_def split: option.splits)

lemma split_image_path:
  assumes "splitImage result = Some img" and "truthy img"
    and "first_output result = Some output0"
  shows "\<exists>splitImageData firstSplit.
           member output0 ''split image'' = Some splitImageData
         \<and> item0 splitImageData = Some firstSplit
         \<and> member firstSplit ''value'' = Some img"
proof -
  from assms(1,3) obtain splitImageData firstSplit where
    d: "member output0 ''split image'' = Some splitImageData"
    and f: "opt_item0 splitImageData = Some firstSplit"
    and v: "opt_member firstSplit ''value'' = Some img"
    by (auto simp: splitImage_def split: bind_splits)
  from opt_member_source [OF v assms(2)] have "truthy firstSplit" .
  from opt_item0_truthy [OF f this] opt_member_truthy [OF v assms(2)] d
  show ?thesis by blast
qed

lemma pint_image_path:
  assumes "pintImage result = Some img" and "truthy img"
    and "first_output result = Some output0"
  shows "\<exists>pintImageData.
           member output0 ''pint image'' = Some pintImageData
         \<and> member pintImageData ''value'' = Some img"
proof -
  from assms(1,3) obtain pintImageData where
    d: "member output0 ''pint image'' = Some pintImageData"
    and v: "opt_member pintImageData ''value'' = Some img"
    by (auto simp: pintImage_def split: bind_splits)
  from opt_member_truthy [OF v assms(2)] d show ?thesis by blast
qed

lemma success_trace:
  assumes "action w req = (Redirect url headers, t)"
  shows "\<exists>response result output0 splitImg pintImg row score.
           fetch w (base64Image req) = Inr response
         \<and> resp_json response = Inr result
         \<and> first_output result = Some output0
         \<and> splitImage result = Some splitImg \<and> truthy splitImg
         \<and> pintImage result = Some pintImg \<and> truthy pintImg
         \<and> uploadImage w splitImg ''split-images'' = Inr (split_image_url row)
         \<and> uploadImage w pintImg ''pint-images'' = Inr (pint_image_url row)
         \<and> t = [CallApi api_url (base64Image req), ReadJson,
                Upload splitImg ''split-images'', Upload pintImg ''pint-images'',
                Locate (clientIP req), InsertRow ''scores'' row]
         \<and> reply_data (insert_score w row) = Some score
         \<and> url = ''/score/'' @ row_id score"
  using assms
  by (auto simp: action_def try_block_def interpret_result_def store_def Let_def
      split: option.splits sum.splits bool.splits if_splits prod.splits)

text \<open>
  C1. Whenever the action ends in a redirect, what it did to the outside is, in this
  order and nothing else: one call of the inference API with the submitted image; one
  reading of the body as JSON; the upload to \<^verbatim>\<open>split-images\<close> of the image that the
  body holds at \<^verbatim>\<open>outputs[0]["split image"][0].value\<close>; the upload to
  \<^verbatim>\<open>pint-images\<close> of the image it holds at \<^verbatim>\<open>outputs[0]["pint image"].value\<close>; the
  location lookup; and one insert into \<^verbatim>\<open>scores\<close> of a row holding the two uploaded
  URLs. The redirect goes to \<^verbatim>\<open>/score/\<close> followed by the id of the inserted row.
\<close>

theorem action_success_steps:
  assumes "action w req = (Redirect url headers, t)"
  shows "\<exists>response result outputs output0 splitImageData firstSplit pintImageData
            splitImg pintImg row score.
           fetch w (base64Image req) = Inr response
         \<and> resp_json response = Inr result
         \<and> member result ''outputs'' = Some outputs
         \<and> item0 outputs = Some output0
         \<and> member output0 ''split image'' = Some splitImageData
         \<and> item0 splitImageData = Some firstSplit
         \<and> member firstSplit ''value'' = Some splitImg
         \<and> member output0 ''pint image'' = Some pintImageData
         \<and> member pintImageData ''value'' = Some pintImg
         \<and> uploadImage w splitImg ''split-images'' = Inr (split_image_url row)
         \<and> uploadImage w pintImg ''pint-images'' = Inr (pint_image_url row)
         \<and> t = [CallApi api_url (base64Image req), ReadJson,
                Upload splitImg ''split-images'', Upload pintImg ''pint-images'',
                Locate (clientIP req), InsertRow ''scores'' row]
         \<and> reply_data (insert_score w row) = Some score
         \<and> url = ''/score/'' @ row_id score"
proof -
  from success_trace [OF assms]
  obtain response result output0 splitImg pintImg row score where
    r: "fetch w (base64Image req) = Inr response" "resp_json response = Inr result"
    and o: "first_output result = Some output0"
    and sp: "splitImage result = Some splitImg" "truthy splitImg"
    and pi: "pintImage result = Some pintImg" "truthy pintImg"
    and rest: "uploadImage w splitImg ''split-images'' = Inr (split_image_url row)"
      "uploadImage w pintImg ''pint-images'' = Inr (pint_image_url row)"
      "t = [CallApi api_url (base64Image req), ReadJson,
            Upload splitImg ''split-images'', Upload pintImg ''pint-images'',
            Locate (clientIP req), InsertRow ''scores'' row]"
      "reply_data (insert_score w row) = Some score"
      "url = ''/score/'' @ row_id score"
    by blast
  from first_output_path [OF o] obtain outputs where
    p1: "member result ''outputs'' = Some outputs" "item0 outputs = Some output0"
    by blast
  from split_image_path [OF sp o] obtain splitImageData firstSplit where
    p2: "member output0 ''split image'' = Some splitImageData"
      "item0 splitImageData = Some firstSplit"
      "member firstSplit ''value'' = Some splitImg"
    by blast
  from pint_image_path [OF pi o] obtain pintImageData where
    p3: "member output0 ''pint image'' = Some pintImageData"
      "member pintImageData ''value'' = Some pintImg"
    by blast
  from r p1 p2 p3 rest show ?thesis by blast
qed

theorem action_success_steps_witness:
  "\<exists>response result outputs output0 splitImageData firstSplit pintImageData
      splitImg pintImg row score.
     fetch (sample_world (Inr (ok_response sample_body))) (base64Image sample_request)
       = Inr response
   \<and> resp_json response = Inr result
   \<and> member result ''outputs'' = Some outputs
   \<and> item0 outputs = Some output0
   \<and> member output0 ''split image'' = Some splitImageData
   \<and> item0 splitImageData = Some firstSplit
   \<and> member firstSplit ''value'' = Some splitImg
   \<and> member output0 ''pint image'' = Some pintImageData
   \<and> member pintImageData ''value'' = Some pintImg
   \<and> uploadImage (sample_world (Inr (ok_response sample_body))) splitImg ''split-images''
       = Inr (split_image_url row)
   \<and> uploadImage (sample_world (Inr (ok_response sample_body))) pintImg ''pint-images''
       = Inr (pint_image_url row)
   \<and> [CallApi api_url ''aW1n'', ReadJson,
       Upload (JStr ''c3BsaXQ='') ''split-images'',
       Upload (JStr ''cGludA=='') ''pint-images'',
       Locate ''203.0.113.9'',
       InsertRow ''scores''
         \<lparr>split_score = 4, split_image_url = ''split-images/1.jpg'',
          pint_image_url = ''pint-images/1.jpg'', username = ''StoutFan'',
          created_at = ''2025-03-01T00:00:00.000Z'', session_id = ''0000'',
          city = None, region = None, country = None, country_code = None\<rparr>]
       = [CallApi api_url (base64Image sample_request), ReadJson,
          Upload splitImg ''split-images'', Upload pintImg ''pint-images'',
          Locate (clientIP sample_request), InsertRow ''scores'' row]
   \<and> reply_data (insert_score (sample_world (Inr (ok_response sample_body))) row) = Some score
   \<and> ''/score/7'' = ''/score/'' @ row_id score"
  by (rule action_success_steps [OF sample_run])

subsection \<open>Predictions without a G\<close>






subsection \<open>The check of line 93\<close>

lemma falsy_member: "\<not> truthy v \<Longrightarrow> opt_member v k = Some JUndefined"
  by (cases v) (simp_all add: opt_member_def)

lemma no_predictions_without_output:
  assumes "member result ''outputs'' = Some outputs" and "opt_item0 outputs = Some output0"
    and "\<not> truthy output0"
  shows "pintPredictions result = Some (JArr [])"
  using assms by (simp add: pintPredictions_def falsy_member)

text \<open>
  Once line 80 has found a G, the first output is there: the \<^verbatim>\<open>throw\<close> of line 95
  cannot be reached.
\<close>

lemma outputs_check_unreachable:
  assumes "pintPredictions result = Some preds" and "hasG preds = Some True"
    and "first_output_opt result = Some checked"
  shows "truthy checked"
proof (rule ccontr)
  assume falsy: "\<not> truthy checked"
  from assms(3) obtain outputs where o: "member result ''outputs'' = Some outputs"
    and c: "opt_item0 outputs = Some checked"
    by (auto simp: first_output_opt_def split: bind_splits)
  from no_predictions_without_output [OF o c falsy] assms(1) have "preds = JArr []" by simp
  with assms(2) show False by (simp add: hasG_def)
qed

text \<open>
  C6. A body without outputs, here the empty object and the object with an empty
  \<^verbatim>\<open>outputs\<close> array, does not reach the check of line 93 that would throw
  "No outputs received from API": the predictions of lines 78-79 default to the empty
  list, so line 82 returns the "No G detected" object with status 400.
\<close>

theorem missing_outputs_returns_400:
  "action (sample_world (Inr (ok_response (JObj [])))) sample_request =
     (Data \<lparr>success = False, error = ''No G detected'',
            message = ''No G pattern detected'', status = 400\<rparr>,
      [CallApi api_url ''aW1n'', ReadJson])
   \<and> action (sample_world (Inr (ok_response (JObj [(''outputs'', JArr [])])))) sample_request =
     (Data \<lparr>success = False, error = ''No G detected'',
            message = ''No G pattern detected'', status = 400\<rparr>,
      [CallApi api_url ''aW1n'', ReadJson])"
  by (simp add: action_defs sample_defs)

subsection \<open>Calls of the inference API\<close>

lemma store_no_api_call: "api_calls (fst (store w req output0 splitImg pintImg)) = 0"
  by (simp add: store_def api_calls_def Let_def split: sum.splits option.splits)

lemma interpret_result_no_api_call: "api_calls (fst (interpret_result w req result)) = 0"
proof -
  have nil: "api_calls [] = 0" by (simp add: api_calls_def)
  show ?thesis
    by (simp add: interpret_result_def Let_def nil store_no_api_call
        split: option.splits bool.splits)
qed

lemma try_block_one_api_call: "api_calls (fst (try_block w req)) = 1"
proof (cases "fetch w (base64Image req)")
  case (Inl e)
  then show ?thesis by (simp add: try_block_def api_calls_def)
next
  case (Inr response)
  show ?thesis
  proof (cases "resp_ok response")
    case False
    with Inr show ?thesis
      by (simp add: try_block_def api_calls_def Let_def split: sum.splits)
  next
    case True
    show ?thesis
    proof (cases "resp_json response")
      case (Inl e)
      with Inr True show ?thesis by (simp add: try_block_def api_calls_def)
    next
      case body: (Inr result)
      obtain t2 r where i: "interpret_result w req result = (t2, r)"
        by (cases "interpret_result w req result")
      from interpret_result_no_api_call [of w req result] i have "api_calls t2 = 0" by simp
      with Inr True body i show ?thesis by (simp add: try_block_def api_calls_def)
    qed
  qed
qed

lemma action_trace: "snd (action w req) = fst (try_block w req)"
  by (cases "try_block w req") (simp add: action_def split: sum.splits)

lemma failed_request_result:
  assumes "api_request_failed w req"
  shows "\<exists>e. try_block w req = ([CallApi api_url (base64Image req)], Inl e)
           \<or> try_block w req = ([CallApi api_url (base64Image req), ReadText], Inl e)"
  using assms
  by (auto simp: api_request_failed_def try_block_def Let_def split: sum.splits)

text \<open>
  C7. Every run of the action calls the inference API exactly once. When the request
  fails (\<^verbatim>\<open>fetch\<close> rejects, or the status is not ok) the action does nothing more than
  read the error text, and returns the failure object with status 500.
\<close>

theorem api_called_once_no_retry:
  "api_calls (snd (action w req)) = 1
   \<and> (api_request_failed w req \<longrightarrow>
        (\<exists>m. fst (action w req) =
                Data \<lparr>success = False, error = m,
                       message = ''Failed to process image'', status = 500\<rparr>)
        \<and> (snd (action w req) = [CallApi api_url (base64Image req)]
           \<or> snd (action w req) = [CallApi api_url (base64Image req), ReadText]))"
proof (intro conjI impI)
  show "api_calls (snd (action w req)) = 1"
    by (simp add: action_trace try_block_one_api_call)
next
  assume "api_request_failed w req"
  from failed_request_result [OF this] obtain e where
    "try_block w req = ([CallApi api_url (base64Image req)], Inl e)
     \<or> try_block w req = ([CallApi api_url (base64Image req), ReadText], Inl e)"
    by blast
  then show "\<exists>m. fst (action w req) =
                Data \<lparr>success = False, error = m,
                       message = ''Failed to process image'', status = 500\<rparr>"
    by (auto simp: action_def failed_def)
next
  assume "api_request_failed w req"
  from failed_request_result [OF this] obtain e where
    "try_block w req = ([CallApi api_url (base64Image req)], Inl e)
     \<or> try_block w req = ([CallApi api_url (base64Image req), ReadText], Inl e)"
    by blast
  then show "snd (action w req) = [CallApi api_url (base64Image req)]
           \<or> snd (action w req) = [CallApi api_url (base64Image req), ReadText]"
    by (auto simp: action_def)
qed

theorem api_called_once_no_retry_witness:
  "api_request_failed (sample_world (Inr busy_response)) sample_request
   \<and> api_calls (snd (action (sample_world (Inr busy_response)) sample_request)) = 1
   \<and> (\<exists>m. fst (action (sample_world (Inr busy_response)) sample_request) =
              Data \<lparr>success = False, error = m,
                     message = ''Failed to process image'', status = 500\<rparr>)
   \<and> action (sample_world (Inr busy_response)) sample_request =
       (Data \<lparr>success = False, error = ''API request failed (503): busy'',
              message = ''Failed to process image'', status = 500\<rparr>,
        [CallApi api_url ''aW1n'', ReadText])"
proof -
  let ?w = "sample_world (Inr busy_response)"
  have f: "api_request_failed ?w sample_request"
    by (simp add: api_request_failed_def sample_world_def busy_response_def)
  have r: "action ?w sample_request =
       (Data \<lparr>success = False, error = ''API request failed (503): busy'',
              message = ''Failed to process image'', status = 500\<rparr>,
        [CallApi api_url ''aW1n'', ReadText])"
    by (simp add: action_defs sample_defs busy_response_def show_nat.simps digit_char_def)
  from api_called_once_no_retry [of ?w sample_request] f
  have "api_calls (snd (action ?w sample_request)) = 1"
    and "\<exists>m. fst (action ?w sample_request) =
              Data \<lparr>success = False, error = m,
                     message = ''Failed to process image'', status = 500\<rparr>"
    by blast+
  with f r show ?thesis by blast
qed



end
